theory Spec2Isabelle
  imports Main "HOL-Library.AList"
begin

section \<open>The download manager: Downloader, its progress records, and recovery\<close>

text \<open>
  The source is a Qt program: \<^verbatim>\<open>Downloader\<close> (one download: destination file, progress
  file, network reply, byte counter, mutex, pause flag), \<^verbatim>\<open>DownloadThread\<close>, and
  \<^verbatim>\<open>main.cpp\<close> with the progress-bar lambda and \<^verbatim>\<open>loadUnfinishedDownloads\<close>.
  Every method of \<^verbatim>\<open>Downloader\<close> is embedded as a function on the pair of the object's
  fields and the world it acts on (file system, requests sent, signals emitted).
  A method either returns, or blocks forever on the mutex, or dereferences a null
  pointer; the three are the constructors of \<open>outcome\<close>, each with the state reached.
\<close>

subsection \<open>QString and QByteArray operations used by the source\<close>

text \<open>\<^verbatim>\<open>QChar::isSpace\<close> on the ASCII range: space, tab, line feed, vertical tab, form
  feed, carriage return.\<close>

definition isSpace :: "char \<Rightarrow> bool" where
  "isSpace c = (c \<in> set [CHR '' '', CHR 0x09, CHR 0x0A, CHR 0x0B, CHR 0x0C, CHR 0x0D])"

text \<open>\<^verbatim>\<open>QString::trimmed()\<close>: white space removed from both ends.\<close>

definition trimmed :: "string \<Rightarrow> string" where
  "trimmed s = rev (dropWhile isSpace (rev (dropWhile isSpace s)))"

text \<open>\<^verbatim>\<open>QString::startsWith(p)\<close>.\<close>

definition startsWith :: "string \<Rightarrow> string \<Rightarrow> bool" where
  "startsWith s p = (take (length p) s = p)"

text \<open>\<^verbatim>\<open>line.section(":", 1)\<close>: the fields from index 1 to the end, that is everything
  after the first colon; empty when the line has no colon.\<close>

definition section_1 :: "string \<Rightarrow> string" where
  "section_1 s = drop 1 (dropWhile (\<lambda>c. c \<noteq> CHR '':'') s)"

definition isDigit :: "char \<Rightarrow> bool" where
  "isDigit c = (48 \<le> (of_char c :: nat) \<and> (of_char c :: nat) \<le> 57)"

definition digit_value :: "char \<Rightarrow> nat" where
  "digit_value c = of_char c - 48"

definition digits_value :: "string \<Rightarrow> nat" where
  "digits_value ds = foldl (\<lambda>acc c. 10 * acc + digit_value c) 0 ds"

text \<open>\<^verbatim>\<open>QString::toLongLong()\<close> in base 10, on a string that was trimmed before: an
  optional sign and at least one digit, nothing else, and a value that fits a
  \<^verbatim>\<open>qint64\<close>; the result is 0 whenever the conversion fails.\<close>

definition toLongLong :: "string \<Rightarrow> int" where
  "toLongLong s =
     (let neg = (s \<noteq> [] \<and> hd s = CHR ''-'');
          ds = (if s \<noteq> [] \<and> (hd s = CHR ''-'' \<or> hd s = CHR ''+'') then tl s else s)
      in if ds = [] \<or> \<not> list_all isDigit ds then 0
         else let v = (if neg then - int (digits_value ds) else int (digits_value ds))
              in if - (2 ^ 63) \<le> v \<and> v < 2 ^ 63 then v else 0)"

definition digit_char :: "nat \<Rightarrow> char" where
  "digit_char n = char_of (48 + n)"

fun nat_digits :: "nat \<Rightarrow> string" where
  "nat_digits n = (if n < 10 then [digit_char n] else nat_digits (n div 10) @ [digit_char (n mod 10)])"

declare nat_digits.simps [simp del]

text \<open>\<^verbatim>\<open>QByteArray::number(qint64)\<close> and \<^verbatim>\<open>QTextStream << qint64\<close>: the decimal
  digits, with a minus sign for a negative value.\<close>

definition number :: "int \<Rightarrow> string" where
  "number i = (if i < 0 then CHR ''-'' # nat_digits (nat (- i)) else nat_digits (nat i))"

subsection \<open>The world: file system, network requests, signals\<close>

text \<open>A path is a directory and an entry name; \<^verbatim>\<open>QFile::fileName()\<close> joins them with a
  slash.\<close>

type_synonym path = "string \<times> string"

definition path_string :: "path \<Rightarrow> string" where
  "path_string p = fst p @ ''/'' @ snd p"

text \<open>The request built in \<^verbatim>\<open>startDownload\<close>: a GET of \<open>rq_url\<close>; \<open>rq_range\<close> is the raw
  header \<^verbatim>\<open>Range\<close>, \<open>None\<close> when the request carries none.\<close>

record request =
  rq_url :: string
  rq_range :: "string option"

datatype signal =
    downloadFinished string
  | downloadFailed string
  | downloadProgress int int
  | pauseResumeStatusChanged bool

text \<open>\<open>homePath\<close> is \<^verbatim>\<open>QDir::homePath()\<close> and \<open>urlFileName\<close> is \<^verbatim>\<open>QUrl(url).fileName()\<close>;
  both are the platform's and are taken as given. \<open>files\<close> maps the paths of the
  regular files to their contents, \<open>dirs\<close> lists the directories that exist.
  \<open>requests\<close> are the GETs handed to the network manager and \<open>signals\<close> the signals the
  Downloader has emitted, oldest first.\<close>

record world =
  homePath :: string
  urlFileName :: "string \<Rightarrow> string"
  files :: "(path \<times> string) list"
  dirs :: "string list"
  requests :: "request list"
  signals :: "signal list"

definition emit :: "signal \<Rightarrow> world \<Rightarrow> world" where
  "emit e w = w\<lparr>signals := signals w @ [e]\<rparr>"

text \<open>\<^verbatim>\<open>QDir::mkpath(".")\<close> on a directory that does not exist.\<close>

definition mkpath :: "string \<Rightarrow> world \<Rightarrow> world" where
  "mkpath d w = w\<lparr>dirs := d # dirs w\<rparr>"

text \<open>\<^verbatim>\<open>if (!progressDir.exists()) progressDir.mkpath(".")\<close>.\<close>

definition ensure_dir :: "string \<Rightarrow> world \<Rightarrow> world" where
  "ensure_dir d w = (if d \<in> set (dirs w) then w else mkpath d w)"

definition file_exists :: "path \<Rightarrow> world \<Rightarrow> bool" where
  "file_exists p w = (map_of (files w) p \<noteq> None)"

text \<open>\<^verbatim>\<open>QDir::entryList(QDir::Files)\<close>: the names of the regular files of a directory.\<close>

definition entryList :: "string \<Rightarrow> world \<Rightarrow> string list" where
  "entryList d w = map snd (filter (\<lambda>p. fst p = d) (map fst (files w)))"

subsection \<open>QFile\<close>

record qfile =
  f_path :: path
  isOpen :: bool

definition QFile :: "path \<Rightarrow> qfile" where
  "QFile p = \<lparr>f_path = p, isOpen = False\<rparr>"

text \<open>
  \<^verbatim>\<open>QFile::open(QIODevice::WriteOnly)\<close>, also with \<^verbatim>\<open>QIODevice::Text\<close>. It returns false
  (\<open>None\<close>) on a QFile object that is already open, and when the file cannot be
  created: its directory does not exist or its name is empty. Otherwise the file is
  created or, as WriteOnly without Append implies Truncate, cut to length 0.
\<close>

definition qfile_open_WriteOnly :: "qfile \<Rightarrow> world \<Rightarrow> (qfile \<times> world) option" where
  "qfile_open_WriteOnly f w =
     (if isOpen f then None
      else if snd (f_path f) = [] \<or> fst (f_path f) \<notin> set (dirs w) then None
      else Some (f\<lparr>isOpen := True\<rparr>, w\<lparr>files := AList.update (f_path f) [] (files w)\<rparr>))"

text \<open>\<^verbatim>\<open>QFile::write\<close> on a file opened as above: the data goes to the end of what was
  written since the open.\<close>

definition qfile_write :: "qfile \<Rightarrow> string \<Rightarrow> world \<Rightarrow> world" where
  "qfile_write f bs w =
     w\<lparr>files := AList.update (f_path f)
         ((case map_of (files w) (f_path f) of None \<Rightarrow> [] | Some old \<Rightarrow> old) @ bs) (files w)\<rparr>"

definition qfile_close :: "qfile \<Rightarrow> qfile" where
  "qfile_close f = f\<lparr>isOpen := False\<rparr>"

text \<open>\<^verbatim>\<open>QFile::size()\<close>: the number of bytes of the file on disk.\<close>

definition qfile_size :: "qfile \<Rightarrow> world \<Rightarrow> int" where
  "qfile_size f w = (case map_of (files w) (f_path f) of None \<Rightarrow> 0 | Some bs \<Rightarrow> int (length bs))"

text \<open>\<^verbatim>\<open>QFile::remove(name)\<close>.\<close>

definition qfile_remove :: "path \<Rightarrow> world \<Rightarrow> world" where
  "qfile_remove p w = w\<lparr>files := AList.delete p (files w)\<rparr>"

subsection \<open>QNetworkReply\<close>

datatype NetworkError = NoError | OtherError

text \<open>The reply of the request in flight. \<open>rp_error\<close>, \<open>rp_errorString\<close>, \<open>rp_buffer\<close>
  (what \<^verbatim>\<open>readAll()\<close> returns) and \<open>rp_contentLength\<close> (the Content-Length header read
  with \<^verbatim>\<open>toLongLong()\<close>) are set by the network; the connection flags say whether the
  reply's signals reach the Downloader's slots.\<close>

record reply =
  rp_request :: request
  rp_error :: NetworkError
  rp_errorString :: string
  rp_buffer :: string
  rp_contentLength :: int
  rp_aborted :: bool
  rp_progressConnected :: bool
  rp_finishedConnected :: bool
  rp_deleteLater :: bool

definition connect_slots :: "reply \<Rightarrow> reply" where
  "connect_slots r = r\<lparr>rp_progressConnected := True, rp_finishedConnected := True\<rparr>"

definition disconnect_slots :: "reply \<Rightarrow> reply" where
  "disconnect_slots r = r\<lparr>rp_progressConnected := False, rp_finishedConnected := False\<rparr>"

text \<open>\<^verbatim>\<open>networkManager->get(request)\<close>: a fresh reply, nothing received yet.\<close>

definition get_request :: "request \<Rightarrow> reply" where
  "get_request rq =
     \<lparr>rp_request = rq, rp_error = NoError, rp_errorString = [], rp_buffer = [],
      rp_contentLength = 0, rp_aborted = False, rp_progressConnected = False,
      rp_finishedConnected = False, rp_deleteLater = False\<rparr>"

subsection \<open>Downloader\<close>

text \<open>The fields of the class; a null pointer is \<open>None\<close>. The member \<^verbatim>\<open>file\<close> is
  \<open>file_obj\<close> here, and \<open>mutex\<close> is true while the \<^verbatim>\<open>QMutex\<close> is locked. A \<^verbatim>\<open>qint64\<close> is
  an \<open>int\<close>: the Downloader only copies and prints such values; the one place that
  computes with them, the lambda of \<^verbatim>\<open>main.cpp\<close>, has the 64-bit range written out.\<close>

record downloader =
  downloadUrl :: string
  reply :: "reply option"
  file_obj :: "qfile option"
  progressFile :: "qfile option"
  downloadedBytes :: int
  mutex :: bool
  paused :: bool

type_synonym config = "downloader \<times> world"

datatype outcome = Returns config | Deadlock config | NullDeref config

definition config_of :: "outcome \<Rightarrow> config" where
  "config_of r = (case r of Returns c \<Rightarrow> c | Deadlock c \<Rightarrow> c | NullDeref c \<Rightarrow> c)"

definition returned :: "outcome \<Rightarrow> bool" where
  "returned r = (case r of Returns c \<Rightarrow> True | Deadlock c \<Rightarrow> False | NullDeref c \<Rightarrow> False)"

definition blocked :: "outcome \<Rightarrow> bool" where
  "blocked r = (case r of Returns c \<Rightarrow> False | Deadlock c \<Rightarrow> True | NullDeref c \<Rightarrow> False)"

text \<open>The constructor.\<close>

definition Downloader :: "string \<Rightarrow> downloader" where
  "Downloader url =
     \<lparr>downloadUrl = url, reply = None, file_obj = None, progressFile = None,
      downloadedBytes = 0, mutex = False, paused = False\<rparr>"

text \<open>
  \<^verbatim>\<open>QMutexLocker locker(&mutex)\<close> as the first statement of a method: the mutex is locked
  for the body and unlocked when the method returns. The member is declared
  \<^verbatim>\<open>QMutex mutex;\<close>, a non-recursive mutex: locking it while it is locked never
  returns, also when the caller is the thread that holds it.
\<close>

definition QMutexLocker :: "(config \<Rightarrow> outcome) \<Rightarrow> config \<Rightarrow> outcome" where
  "QMutexLocker body c =
     (if mutex (fst c) then Deadlock c
      else (case body ((fst c)\<lparr>mutex := True\<rparr>, snd c) of
              Returns c' \<Rightarrow> Returns ((fst c')\<lparr>mutex := False\<rparr>, snd c')
            | Deadlock c' \<Rightarrow> Deadlock c'
            | NullDeref c' \<Rightarrow> NullDeref c'))"

text \<open>What follows in a method after a call of another method that returned.\<close>

definition and_then :: "outcome \<Rightarrow> (config \<Rightarrow> outcome) \<Rightarrow> outcome" where
  "and_then r k = (case r of Returns c \<Rightarrow> k c | Deadlock c \<Rightarrow> Deadlock c | NullDeref c \<Rightarrow> NullDeref c)"

definition progressDir :: "world \<Rightarrow> string" where
  "progressDir w = homePath w @ ''/progress''"

definition progressFilePath :: "downloader \<Rightarrow> world \<Rightarrow> path" where
  "progressFilePath d w = (progressDir w, urlFileName w (downloadUrl d) @ ''.progress'')"

definition destinationPath :: "downloader \<Rightarrow> world \<Rightarrow> path" where
  "destinationPath d w = (homePath w @ ''/qt_downloads'', urlFileName w (downloadUrl d))"

text \<open>The three lines each writer streams into the progress file.\<close>

definition initial_record :: "string \<Rightarrow> string" where
  "initial_record url =
     ''Download URL: '' @ url @ [CHR 0x0A] @ ''Downloaded: 0'' @ [CHR 0x0A] @
     ''Status: in-progress'' @ [CHR 0x0A]"

definition progress_record :: "string \<Rightarrow> int \<Rightarrow> int \<Rightarrow> string \<Rightarrow> string" where
  "progress_record url received tot status =
     ''Download URL: '' @ url @ [CHR 0x0A] @
     ''Downloaded: '' @ number received @ '' / '' @ number tot @ [CHR 0x0A] @
     ''Status: '' @ status @ [CHR 0x0A]"

text \<open>\<^verbatim>\<open>if (progressFile && progressFile->open(WriteOnly | Text)) { stream << ...;
  progressFile->close(); }\<close>, the block shared by \<^verbatim>\<open>pauseDownload\<close> and
  \<^verbatim>\<open>updateProgressFile\<close>.\<close>

definition write_progressFile :: "string \<Rightarrow> config \<Rightarrow> config" where
  "write_progressFile text c =
     (case progressFile (fst c) of
        None \<Rightarrow> c
      | Some pf \<Rightarrow>
          (case qfile_open_WriteOnly pf (snd c) of
             None \<Rightarrow> c
           | Some (pf', w') \<Rightarrow>
               ((fst c)\<lparr>progressFile := Some (qfile_close pf')\<rparr>, qfile_write pf' text w')))"

definition createProgressFile :: "config \<Rightarrow> outcome" where
  "createProgressFile = QMutexLocker (\<lambda>c.
     let d = fst c;
         w = ensure_dir (progressDir (snd c)) (snd c);
         pf = QFile (progressFilePath d w);
         d1 = d\<lparr>progressFile := Some pf\<rparr>
     in (case qfile_open_WriteOnly pf w of
           None \<Rightarrow> Returns (d1, w)
         | Some (pf', w') \<Rightarrow>
             Returns (d1\<lparr>progressFile := Some (qfile_close pf')\<rparr>,
                      qfile_write pf' (initial_record (downloadUrl d)) w')))"

definition updateProgressFile :: "int \<Rightarrow> int \<Rightarrow> config \<Rightarrow> outcome" where
  "updateProgressFile bytesReceived bytesTotal = QMutexLocker (\<lambda>c.
     Returns (write_progressFile
       (progress_record (downloadUrl (fst c)) bytesReceived bytesTotal ''in-progress'') c))"

definition startDownload :: "config \<Rightarrow> outcome" where
  "startDownload = QMutexLocker (\<lambda>c.
     let d = fst c; w = snd c;
         f = QFile (destinationPath d w)
     in (case qfile_open_WriteOnly f w of
           None \<Rightarrow>
             Returns (d\<lparr>file_obj := Some f\<rparr>, emit (downloadFailed ''Failed to open file for writing.'') w)
         | Some (f', w1) \<Rightarrow>
             (let d1 = d\<lparr>file_obj := Some f'\<rparr>;
                  w2 = ensure_dir (progressDir w1) w1
              in and_then
                   (if \<not> file_exists (progressFilePath d1 w2) w2
                    then createProgressFile (d1, w2) else Returns (d1, w2))
                   (\<lambda>c3.
                      let d3 = fst c3; w3 = snd c3;
                          d4 = d3\<lparr>downloadedBytes := qfile_size f' w3\<rparr>;
                          rq = \<lparr>rq_url = downloadUrl d4,
                                rq_range = Some (''bytes='' @ number (downloadedBytes d4) @ ''-'')\<rparr>
                      in Returns (d4\<lparr>reply := Some (connect_slots (get_request rq))\<rparr>,
                                  w3\<lparr>requests := requests w3 @ [rq]\<rparr>)))))"

definition pauseDownload :: "config \<Rightarrow> outcome" where
  "pauseDownload = QMutexLocker (\<lambda>c.
     let d = fst c; w = snd c
     in (case reply d of
           None \<Rightarrow> Returns c
         | Some r \<Rightarrow>
             if paused d then Returns c
             else
               (let r1 = (disconnect_slots r)\<lparr>rp_aborted := True\<rparr>;
                    d1 = d\<lparr>paused := True, reply := Some r1\<rparr>;
                    totalBytes = rp_contentLength r1;
                    c2 = write_progressFile
                           (progress_record (downloadUrl d1) (downloadedBytes d1) totalBytes ''paused'')
                           (d1, w)
                in Returns (fst c2, emit (pauseResumeStatusChanged True) (snd c2)))))"

definition resumeDownload :: "config \<Rightarrow> outcome" where
  "resumeDownload = QMutexLocker (\<lambda>c.
     let d = fst c; w = snd c
     in if paused d then
          (let d1 = d\<lparr>paused := False, reply := map_option connect_slots (reply d)\<rparr>
           in and_then (startDownload (d1, w))
                (\<lambda>c2. Returns (fst c2, emit (pauseResumeStatusChanged False) (snd c2))))
        else Returns c)"

text \<open>\<^verbatim>\<open>if (file->open(WriteOnly)) { file->write(reply->readAll()); file->close(); }\<close>, the
  block shared by the two slots; \<^verbatim>\<open>readAll()\<close> empties the reply's buffer.\<close>

definition write_readAll :: "qfile \<Rightarrow> reply \<Rightarrow> config \<Rightarrow> config" where
  "write_readAll f r c =
     (case qfile_open_WriteOnly f (snd c) of
        None \<Rightarrow> c
      | Some (f', w') \<Rightarrow>
          ((fst c)\<lparr>file_obj := Some (qfile_close f'), reply := Some (r\<lparr>rp_buffer := []\<rparr>)\<rparr>,
           qfile_write f' (rp_buffer r) w'))"

text \<open>\<^verbatim>\<open>delete progressFile; progressFile = nullptr\<close> after the completed record was
  written and the file removed.\<close>

definition complete_progressFile :: "config \<Rightarrow> config" where
  "complete_progressFile c =
     (case progressFile (fst c) of
        None \<Rightarrow> c
      | Some pf \<Rightarrow>
          (case qfile_open_WriteOnly pf (snd c) of
             None \<Rightarrow> c
           | Some (pf', w') \<Rightarrow>
               ((fst c)\<lparr>progressFile := None\<rparr>,
                qfile_remove (f_path pf')
                  (qfile_write pf'
                     (progress_record (downloadUrl (fst c)) (downloadedBytes (fst c))
                        (downloadedBytes (fst c)) ''completed'') w'))))"

definition onDownloadFinished :: "config \<Rightarrow> outcome" where
  "onDownloadFinished = QMutexLocker (\<lambda>c.
     (case reply (fst c) of
        None \<Rightarrow> NullDeref c
      | Some r \<Rightarrow>
          if rp_error r = NoError then
            (case file_obj (fst c) of
               None \<Rightarrow> NullDeref c
             | Some f \<Rightarrow>
                 (let c1 = write_readAll f r c;
                      c2 = complete_progressFile c1
                  in Returns ((fst c2)\<lparr>reply := map_option (\<lambda>r. r\<lparr>rp_deleteLater := True\<rparr>) (reply (fst c2))\<rparr>,
                              emit (downloadFinished (path_string (f_path f))) (snd c2))))
          else
            Returns ((fst c)\<lparr>reply := Some (r\<lparr>rp_deleteLater := True\<rparr>)\<rparr>,
                     emit (downloadFailed (rp_errorString r)) (snd c))))"

definition onDownloadProgress :: "int \<Rightarrow> int \<Rightarrow> config \<Rightarrow> outcome" where
  "onDownloadProgress bytesReceived bytesTotal = QMutexLocker (\<lambda>c.
     let d = (fst c)\<lparr>downloadedBytes := bytesReceived\<rparr>; w = snd c
     in (case file_obj d of
           None \<Rightarrow> NullDeref (d, w)
         | Some f \<Rightarrow>
             and_then
               (case qfile_open_WriteOnly f w of
                  None \<Rightarrow> Returns (d, w)
                | Some fw \<Rightarrow>
                    (case reply d of
                       None \<Rightarrow> NullDeref (d\<lparr>file_obj := Some (fst fw)\<rparr>, snd fw)
                     | Some r \<Rightarrow> Returns (write_readAll f r (d, w))))
               (\<lambda>c1.
                  let w2 = (if bytesTotal > 0
                            then emit (downloadProgress (downloadedBytes (fst c1)) bytesTotal) (snd c1)
                            else emit (downloadProgress (downloadedBytes (fst c1)) 1) (snd c1))
                  in updateProgressFile (downloadedBytes (fst c1)) bytesTotal (fst c1, w2))))"

subsection \<open>main.cpp: the progress-bar lambda\<close>

text \<open>\<^verbatim>\<open>qint64\<close> arithmetic of the lambda, with what C++ leaves undefined written out as
  errors: a division by zero, and a signed result outside the 64-bit range. The
  division truncates towards zero.\<close>

datatype arith_error = DivisionByZero | SignedOverflow

definition in_qint64 :: "int \<Rightarrow> bool" where
  "in_qint64 v = (- (2 ^ 63) \<le> v \<and> v < 2 ^ 63)"

definition qint64_mul :: "int \<Rightarrow> int \<Rightarrow> arith_error + int" where
  "qint64_mul a b = (if in_qint64 (a * b) then Inr (a * b) else Inl SignedOverflow)"

definition qint64_div :: "int \<Rightarrow> int \<Rightarrow> arith_error + int" where
  "qint64_div a b =
     (if b = 0 then Inl DivisionByZero
      else if \<not> in_qint64 (sgn a * sgn b * (\<bar>a\<bar> div \<bar>b\<bar>)) then Inl SignedOverflow
      else Inr (sgn a * sgn b * (\<bar>a\<bar> div \<bar>b\<bar>)))"

text \<open>\<^verbatim>\<open>static_cast<int>\<close> of a \<^verbatim>\<open>qint64\<close>: the low 32 bits, read as signed.\<close>

definition static_cast_int :: "int \<Rightarrow> int" where
  "static_cast_int v = (v + 2 ^ 31) mod 2 ^ 32 - 2 ^ 31"

text \<open>The lambda connected to \<^verbatim>\<open>DownloadThread::downloadProgress\<close>; the result is the
  argument of \<^verbatim>\<open>progressBar->setValue\<close>.\<close>

definition progress_lambda :: "int \<Rightarrow> int \<Rightarrow> arith_error + int" where
  "progress_lambda bytesReceived bytesTotal =
     (if bytesTotal = 0 then Inr 0
      else (case qint64_mul bytesReceived 100 of
              Inl e \<Rightarrow> Inl e
            | Inr p \<Rightarrow>
                (case qint64_div p bytesTotal of
                   Inl e \<Rightarrow> Inl e
                 | Inr q \<Rightarrow> Inr (static_cast_int q))))"

subsection \<open>main.cpp: loadUnfinishedDownloads\<close>

text \<open>\<^verbatim>\<open>QTextStream::readLine()\<close> until \<^verbatim>\<open>atEnd()\<close>: the text is cut at every line feed, a
  carriage return right before the line feed belongs to the line end, and what
  follows the last line feed is a line when it is not empty.\<close>

definition strip_cr :: "string \<Rightarrow> string" where
  "strip_cr l = (if l \<noteq> [] \<and> last l = CHR 0x0D then butlast l else l)"

fun lines_from :: "string \<Rightarrow> string \<Rightarrow> string list" where
  "lines_from cur [] = (if cur = [] then [] else [cur])"
| "lines_from cur (c # cs) =
     (if c = CHR 0x0A then strip_cr cur # lines_from [] cs else lines_from (cur @ [c]) cs)"

definition readLines :: "string \<Rightarrow> string list" where
  "readLines text = lines_from [] text"

text \<open>The three local variables of the loop, and its body.\<close>

record parsed =
  p_url :: string
  p_downloadedBytes :: int
  p_status :: string

definition parse_line :: "parsed \<Rightarrow> string \<Rightarrow> parsed" where
  "parse_line acc line =
     (if startsWith line ''Download URL:'' then acc\<lparr>p_url := trimmed (section_1 line)\<rparr>
      else if startsWith line ''Downloaded:''
        then acc\<lparr>p_downloadedBytes := toLongLong (trimmed (section_1 line))\<rparr>
      else if startsWith line ''Status:'' then acc\<lparr>p_status := trimmed (section_1 line)\<rparr>
      else acc)"

definition parse_progress :: "string \<Rightarrow> parsed" where
  "parse_progress text =
     foldl parse_line \<lparr>p_url = [], p_downloadedBytes = 0, p_status = []\<rparr> (readLines text)"

text \<open>\<^verbatim>\<open>if (!url.isEmpty() && status != "in-progress") startDownload(url, ...)\<close>.\<close>

definition resubmits :: "parsed \<Rightarrow> bool" where
  "resubmits p = (p_url p \<noteq> [] \<and> p_status p \<noteq> ''in-progress'')"

text \<open>The result lists the URLs handed to \<^verbatim>\<open>startDownload(url, layout, networkManager,
  window)\<close>, in the order of the calls.\<close>

definition loadUnfinishedDownloads :: "world \<Rightarrow> string list" where
  "loadUnfinishedDownloads w =
     (if progressDir w \<in> set (dirs w) then
        concat (map (\<lambda>progressFileName.
                  (case map_of (files w) (progressDir w, progressFileName) of
                     None \<Rightarrow> []
                   | Some text \<Rightarrow>
                       (let p = parse_progress text
                        in if resubmits p then [p_url p] else [])))
                (entryList (progressDir w) w))
      else [])"

subsection \<open>The network and the callers\<close>

text \<open>What the network does to the reply before it fires a signal: new bytes become
  readable, or the reply ends with an error code and its message.\<close>

definition receive :: "string \<Rightarrow> config \<Rightarrow> config" where
  "receive bs c =
     ((fst c)\<lparr>reply := map_option (\<lambda>r. r\<lparr>rp_buffer := rp_buffer r @ bs\<rparr>) (reply (fst c))\<rparr>, snd c)"

definition finish :: "NetworkError \<Rightarrow> string \<Rightarrow> config \<Rightarrow> config" where
  "finish e msg c =
     ((fst c)\<lparr>reply := map_option (\<lambda>r. r\<lparr>rp_error := e, rp_errorString := msg\<rparr>) (reply (fst c))\<rparr>,
      snd c)"

text \<open>The calls a Downloader gets: the three public methods \<^verbatim>\<open>DownloadThread\<close> forwards,
  and the two slots with what the network delivered. \<open>step\<close> runs one call and
  \<open>trace\<close> a sequence of them, listing the state after each. A call on a Downloader
  whose mutex is held blocks and changes nothing (see \<open>QMutexLocker\<close>), so the calls
  after one that never returned leave the state as it is. A slot is run whenever it
  is asked for, whether the reply's signal is connected or not: the sequences cover
  those the signals can produce, and more.\<close>

datatype operation =
    Start
  | Pause
  | Resume
  | Progress int int string
  | Finished NetworkError string

fun step :: "operation \<Rightarrow> config \<Rightarrow> outcome" where
  "step Start c = startDownload c"
| "step Pause c = pauseDownload c"
| "step Resume c = resumeDownload c"
| "step (Progress bytesReceived bytesTotal bs) c =
     onDownloadProgress bytesReceived bytesTotal (receive bs c)"
| "step (Finished e msg) c = onDownloadFinished (finish e msg c)"

fun trace :: "operation list \<Rightarrow> config \<Rightarrow> config list" where
  "trace [] c = []"
| "trace (x # xs) c = config_of (step x c) # trace xs (config_of (step x c))"

text \<open>\<^verbatim>\<open>QNetworkReply::downloadProgress\<close> reports a byte count, never a negative number.\<close>

fun received_nonneg :: "operation \<Rightarrow> bool" where
  "received_nonneg (Progress bytesReceived bytesTotal bs) = (0 \<le> bytesReceived)"
| "received_nonneg x = True"

subsection \<open>Concrete worlds\<close>

text \<open>An instance of \<open>urlFileName\<close> for URLs without query and fragment: the text after
  the last slash.\<close>

definition last_segment :: "string \<Rightarrow> string" where
  "last_segment u = rev (takeWhile (\<lambda>c. c \<noteq> CHR ''/'') (rev u))"

definition example_url :: string where
  "example_url = ''http://example.com/file.bin''"

text \<open>A home directory as an earlier run left it: 4 bytes of the file on disk and a
  record with status paused.\<close>

definition recovered_world :: world where
  "recovered_world =
     \<lparr>homePath = ''/home/u'', urlFileName = last_segment,
      files = [((''/home/u/progress'', ''file.bin.progress''),
                progress_record example_url 4 10 ''paused''),
               ((''/home/u/qt_downloads'', ''file.bin''), ''abcd'')],
      dirs = [''/home/u/qt_downloads'', ''/home/u/progress''],
      requests = [], signals = []\<rparr>"

text \<open>The same with a record that carries the in-progress marker, and no destination
  file yet.\<close>

definition stale_world :: world where
  "stale_world =
     \<lparr>homePath = ''/home/u'', urlFileName = last_segment,
      files = [((''/home/u/progress'', ''file.bin.progress''),
                progress_record example_url 0 10 ''in-progress'')],
      dirs = [''/home/u/qt_downloads'', ''/home/u/progress''],
      requests = [], signals = []\<rparr>"

text \<open>A home directory with the download directory and nothing else.\<close>

definition fresh_world :: world where
  "fresh_world =
     \<lparr>homePath = ''/home/u'', urlFileName = last_segment, files = [],
      dirs = [''/home/u/qt_downloads''], requests = [], signals = []\<rparr>"

section \<open>Lemmas\<close>

subsection \<open>A method called while the mutex is held\<close>

lemma startDownload_locked: "mutex d \<Longrightarrow> startDownload (d, w) = Deadlock (d, w)"
  by (simp add: startDownload_def QMutexLocker_def)

lemma createProgressFile_locked: "mutex d \<Longrightarrow> createProgressFile (d, w) = Deadlock (d, w)"
  by (simp add: createProgressFile_def QMutexLocker_def)

lemma updateProgressFile_locked: "mutex d \<Longrightarrow> updateProgressFile b t (d, w) = Deadlock (d, w)"
  by (simp add: updateProgressFile_def QMutexLocker_def)

lemma pauseDownload_locked: "mutex d \<Longrightarrow> pauseDownload (d, w) = Deadlock (d, w)"
  by (simp add: pauseDownload_def QMutexLocker_def)

lemma resumeDownload_locked: "mutex d \<Longrightarrow> resumeDownload (d, w) = Deadlock (d, w)"
  by (simp add: resumeDownload_def QMutexLocker_def)

lemma onDownloadFinished_locked: "mutex d \<Longrightarrow> onDownloadFinished (d, w) = Deadlock (d, w)"
  by (simp add: onDownloadFinished_def QMutexLocker_def)

lemma onDownloadProgress_locked: "mutex d \<Longrightarrow> onDownloadProgress b t (d, w) = Deadlock (d, w)"
  by (simp add: onDownloadProgress_def QMutexLocker_def)

text \<open>\<^verbatim>\<open>resumeDownload\<close> on a paused worker calls \<^verbatim>\<open>startDownload\<close> with the mutex held.\<close>

lemma resume_paused:
  "paused d \<Longrightarrow> \<not> mutex d \<Longrightarrow>
   resumeDownload (d, w) =
     Deadlock (d\<lparr>mutex := True, paused := False, reply := map_option connect_slots (reply d)\<rparr>, w)"
  by (simp add: resumeDownload_def QMutexLocker_def startDownload_locked and_then_def)

subsection \<open>What reaches the destination file\<close>

text \<open>\<^verbatim>\<open>startDownload\<close>, when it gets to the request, has cut the destination file to
  length 0: the offset it sends is 0 whatever was on disk.\<close>

lemma start_offset_is_0:
  assumes "\<not> mutex d" and "homePath w @ ''/qt_downloads'' \<in> set (dirs w)"
    and "urlFileName w (downloadUrl d) \<noteq> []" and "file_exists (progressFilePath d w) w"
  shows "\<exists>d' w'. startDownload (d, w) = Returns (d', w') \<and> downloadedBytes d' = 0 \<and>
           map_of (files w') (destinationPath d w) = Some []"
  using assms
  by (simp add: startDownload_def QMutexLocker_def and_then_def qfile_open_WriteOnly_def QFile_def
      destinationPath_def progressFilePath_def progressDir_def ensure_dir_def mkpath_def
      file_exists_def update_conv' qfile_size_def Let_def del: not_None_eq)

text \<open>The block of the two slots does nothing on a QFile that is open, and on one
  that is closed it replaces the file by the bytes just read.\<close>

lemma write_readAll_open: "isOpen f \<Longrightarrow> write_readAll f r c = c"
  by (simp add: write_readAll_def qfile_open_WriteOnly_def)

lemma write_readAll_closed:
  assumes "\<not> isOpen f" and "snd (f_path f) \<noteq> []" and "fst (f_path f) \<in> set (dirs (snd c))"
  shows "map_of (files (snd (write_readAll f r c))) (f_path f) = Some (rp_buffer r)"
  using assms
  by (simp add: write_readAll_def qfile_open_WriteOnly_def qfile_write_def update_conv')

subsection \<open>The counter after one call\<close>

lemma start_counter:
  assumes "\<not> mutex d" and "downloadedBytes d = 0"
  shows "case startDownload (d, w) of
           Returns c' \<Rightarrow> \<not> mutex (fst c') \<and> downloadedBytes (fst c') = 0
         | Deadlock c' \<Rightarrow> mutex (fst c') \<and> downloadedBytes (fst c') = 0
         | NullDeref c' \<Rightarrow> mutex (fst c') \<and> downloadedBytes (fst c') = 0"
  using assms
  by (simp add: startDownload_def QMutexLocker_def and_then_def qfile_open_WriteOnly_def QFile_def
      createProgressFile_locked ensure_dir_def mkpath_def update_conv' qfile_size_def Let_def)

lemma pause_counter:
  assumes "\<not> mutex d" and "downloadedBytes d = 0"
  shows "case pauseDownload (d, w) of
           Returns c' \<Rightarrow> \<not> mutex (fst c') \<and> downloadedBytes (fst c') = 0
         | Deadlock c' \<Rightarrow> mutex (fst c') \<and> downloadedBytes (fst c') = 0
         | NullDeref c' \<Rightarrow> mutex (fst c') \<and> downloadedBytes (fst c') = 0"
  using assms
  by (simp add: pauseDownload_def QMutexLocker_def write_progressFile_def Let_def
      split: option.splits)

lemma resume_counter:
  assumes "\<not> mutex d" and "downloadedBytes d = 0"
  shows "case resumeDownload (d, w) of
           Returns c' \<Rightarrow> \<not> mutex (fst c') \<and> downloadedBytes (fst c') = 0
         | Deadlock c' \<Rightarrow> mutex (fst c') \<and> downloadedBytes (fst c') = 0
         | NullDeref c' \<Rightarrow> mutex (fst c') \<and> downloadedBytes (fst c') = 0"
  using assms
  by (simp add: resumeDownload_def QMutexLocker_def startDownload_locked and_then_def Let_def)

lemma finished_counter:
  assumes "\<not> mutex d" and "downloadedBytes d = 0"
  shows "case onDownloadFinished (d, w) of
           Returns c' \<Rightarrow> \<not> mutex (fst c') \<and> downloadedBytes (fst c') = 0
         | Deadlock c' \<Rightarrow> mutex (fst c') \<and> downloadedBytes (fst c') = 0
         | NullDeref c' \<Rightarrow> mutex (fst c') \<and> downloadedBytes (fst c') = 0"
  using assms
  by (simp add: onDownloadFinished_def QMutexLocker_def write_readAll_def complete_progressFile_def
      Let_def split: option.splits)

text \<open>\<^verbatim>\<open>onDownloadProgress\<close> never returns: it reaches \<^verbatim>\<open>updateProgressFile\<close> with the mutex
  held, unless it stopped at a null pointer before.\<close>

lemma progress_counter:
  assumes "\<not> mutex d"
  shows "case onDownloadProgress b t (d, w) of
           Returns c' \<Rightarrow> False
         | Deadlock c' \<Rightarrow> mutex (fst c') \<and> downloadedBytes (fst c') = b
         | NullDeref c' \<Rightarrow> mutex (fst c') \<and> downloadedBytes (fst c') = b"
  using assms
  by (simp add: onDownloadProgress_def QMutexLocker_def write_readAll_def and_then_def
      updateProgressFile_locked Let_def split: option.splits)

lemma step_locked:
  assumes "mutex (fst c)"
  shows "mutex (fst (config_of (step x c))) \<and>
         downloadedBytes (fst (config_of (step x c))) = downloadedBytes (fst c)"
proof (cases c)
  case (Pair d w)
  with assms show ?thesis
    by (cases x)
      (simp_all add: startDownload_locked pauseDownload_locked resumeDownload_locked
        onDownloadProgress_locked onDownloadFinished_locked config_of_def receive_def finish_def)
qed

lemma step_unlocked:
  assumes "\<not> mutex (fst c)" and "downloadedBytes (fst c) = 0" and "received_nonneg x"
  shows "0 \<le> downloadedBytes (fst (config_of (step x c))) \<and>
         (mutex (fst (config_of (step x c))) \<or> downloadedBytes (fst (config_of (step x c))) = 0)"
proof (cases c)
  case (Pair d w)
  show ?thesis
  proof (cases x)
    case Start
    with Pair assms start_counter [of d w] show ?thesis
      by (auto simp: config_of_def split: outcome.splits)
  next
    case Pause
    with Pair assms pause_counter [of d w] show ?thesis
      by (auto simp: config_of_def split: outcome.splits)
  next
    case Resume
    with Pair assms resume_counter [of d w] show ?thesis
      by (auto simp: config_of_def split: outcome.splits)
  next
    case (Progress b t bs)
    with Pair assms progress_counter [of "fst (receive bs (d, w))" b t "snd (receive bs (d, w))"]
    show ?thesis
      by (auto simp: config_of_def receive_def split: outcome.splits)
  next
    case (Finished e msg)
    with Pair assms finished_counter [of "fst (finish e msg (d, w))" "snd (finish e msg (d, w))"]
    show ?thesis
      by (auto simp: config_of_def finish_def split: outcome.splits)
  qed
qed

text \<open>The invariant of a sequence of calls: the counter is not negative, and it is 0
  as long as the mutex is free.\<close>

lemma trace_counters:
  assumes "mutex (fst c) \<or> downloadedBytes (fst c) = 0" and "0 \<le> downloadedBytes (fst c)"
    and "list_all received_nonneg xs"
  shows "sorted (map (\<lambda>c. downloadedBytes (fst c)) (c # trace xs c)) \<and>
         list_all (\<lambda>c. 0 \<le> downloadedBytes (fst c)) (trace xs c)"
  using assms
proof (induction xs arbitrary: c)
  case Nil
  then show ?case by simp
next
  case (Cons x xs)
  let ?c' = "config_of (step x c)"
  have one: "downloadedBytes (fst c) \<le> downloadedBytes (fst ?c') \<and>
              0 \<le> downloadedBytes (fst ?c') \<and>
              (mutex (fst ?c') \<or> downloadedBytes (fst ?c') = 0)"
  proof (cases "mutex (fst c)")
    case True
    with step_locked [of c x] Cons.prems show ?thesis by simp
  next
    case False
    with Cons.prems have "downloadedBytes (fst c) = 0" and "received_nonneg x" by simp_all
    with False step_unlocked [of c x] show ?thesis by simp
  qed
  with Cons.prems
  have rest: "sorted (map (\<lambda>c. downloadedBytes (fst c)) (?c' # trace xs ?c')) \<and>
         list_all (\<lambda>c. 0 \<le> downloadedBytes (fst c)) (trace xs ?c')"
    by (intro Cons.IH) simp_all
  from one rest show ?case
    by (auto simp: list_all_iff)
qed

subsection \<open>Reading a progress file\<close>

text \<open>The last line of a file that ends with a line feed is the last thing the loop
  of \<^verbatim>\<open>loadUnfinishedDownloads\<close> sees, whatever the lines before it are.\<close>

lemma lines_from_append_LF:
  "\<exists>ls. lines_from cur (xs @ CHR 0x0A # ys) = ls @ lines_from [] ys"
proof (induction xs arbitrary: cur)
  case Nil
  show ?case by (simp add: exI [of _ "[strip_cr cur]"])
next
  case (Cons x xs)
  show ?case
  proof (cases "x = CHR 0x0A")
    case True
    from Cons.IH [of "[]"] obtain ls where "lines_from [] (xs @ CHR 0x0A # ys) = ls @ lines_from [] ys" ..
    with True show ?thesis by (simp add: exI [of _ "strip_cr cur # ls"])
  next
    case False
    with Cons.IH [of "cur @ [x]"] show ?thesis by simp
  qed
qed

lemma lines_from_last_line:
  "CHR 0x0A \<notin> set l \<Longrightarrow> lines_from cur (l @ [CHR 0x0A]) = [strip_cr (cur @ l)]"
  by (induction l arbitrary: cur) auto

lemma readLines_last_line:
  assumes "CHR 0x0A \<notin> set l"
  shows "\<exists>ls. readLines (xs @ CHR 0x0A # l @ [CHR 0x0A]) = ls @ [strip_cr l]"
proof -
  from lines_from_append_LF [of "[]" xs "l @ [CHR 0x0A]"]
  obtain ls where "lines_from [] (xs @ CHR 0x0A # l @ [CHR 0x0A]) = ls @ lines_from [] (l @ [CHR 0x0A])" ..
  with assms lines_from_last_line [of l "[]"] show ?thesis
    by (simp add: readLines_def)
qed

lemma parse_line_in_progress:
  "p_status (parse_line acc ''Status: in-progress'') = ''in-progress''"
  by (simp add: parse_line_def startsWith_def section_1_def trimmed_def isSpace_def)

lemma parse_in_progress_marker:
  "p_status (parse_progress (xs @ CHR 0x0A # ''Status: in-progress'' @ [CHR 0x0A])) = ''in-progress''"
proof -
  from readLines_last_line [of "''Status: in-progress''" xs]
  obtain ls where "readLines (xs @ CHR 0x0A # ''Status: in-progress'' @ [CHR 0x0A]) = ls @ [strip_cr ''Status: in-progress'']"
    by auto
  then show ?thesis
    by (simp add: parse_progress_def strip_cr_def parse_line_in_progress)
qed

lemma progress_record_not_resubmitted:
  "\<not> resubmits (parse_progress (progress_record url b t ''in-progress''))"
  using parse_in_progress_marker [of "''Download URL: '' @ url @ [CHR 0x0A] @ ''Downloaded: '' @ number b @ '' / '' @ number t"]
  by (simp add: progress_record_def resubmits_def)

lemma initial_record_not_resubmitted:
  "\<not> resubmits (parse_progress (initial_record url))"
  using parse_in_progress_marker [of "''Download URL: '' @ url @ [CHR 0x0A] @ ''Downloaded: 0''"]
  by (simp add: initial_record_def resubmits_def)

text \<open>The URLs a recovery pass resubmits.\<close>

lemma entryList_iff:
  "n \<in> set (entryList d w) \<longleftrightarrow> map_of (files w) (d, n) \<noteq> None"
  by (force simp: entryList_def map_of_eq_None_iff)

lemma loadUnfinishedDownloads_iff:
  "u \<in> set (loadUnfinishedDownloads w) \<longleftrightarrow>
     progressDir w \<in> set (dirs w) \<and>
     (\<exists>progressFileName text.
        map_of (files w) (progressDir w, progressFileName) = Some text \<and>
        resubmits (parse_progress text) \<and> u = p_url (parse_progress text))"
proof (cases "progressDir w \<in> set (dirs w)")
  case False
  then show ?thesis by (simp add: loadUnfinishedDownloads_def)
next
  case True
  show ?thesis
  proof
    assume "u \<in> set (loadUnfinishedDownloads w)"
    with True obtain n where n: "n \<in> set (entryList (progressDir w) w)"
      and u: "u \<in> set (case map_of (files w) (progressDir w, n) of None \<Rightarrow> []
                | Some text \<Rightarrow> if resubmits (parse_progress text) then [p_url (parse_progress text)] else [])"
      by (auto simp: loadUnfinishedDownloads_def Let_def)
    from u obtain body where "map_of (files w) (progressDir w, n) = Some body"
      and "resubmits (parse_progress body)" and "u = p_url (parse_progress body)"
      by (cases "map_of (files w) (progressDir w, n)") (auto split: if_splits)
    with True show "progressDir w \<in> set (dirs w) \<and>
     (\<exists>progressFileName text.
        map_of (files w) (progressDir w, progressFileName) = Some text \<and>
        resubmits (parse_progress text) \<and> u = p_url (parse_progress text))"
      by blast
  next
    assume "progressDir w \<in> set (dirs w) \<and>
     (\<exists>progressFileName text.
        map_of (files w) (progressDir w, progressFileName) = Some text \<and>
        resubmits (parse_progress text) \<and> u = p_url (parse_progress text))"
    then obtain n body where t: "map_of (files w) (progressDir w, n) = Some body"
      and r: "resubmits (parse_progress body)" and u: "u = p_url (parse_progress body)"
      by blast
    from t have "n \<in> set (entryList (progressDir w) w)"
      by (simp add: entryList_iff)
    with True t r u show "u \<in> set (loadUnfinishedDownloads w)"
      by (auto simp: loadUnfinishedDownloads_def Let_def intro!: bexI [of _ n])
  qed
qed

lemma loadUnfinishedDownloads_emit:
  "loadUnfinishedDownloads (emit e w) = loadUnfinishedDownloads w"
  by (simp add: loadUnfinishedDownloads_def emit_def progressDir_def entryList_def)

subsection \<open>The records the writers produce\<close>

text \<open>\<open>number\<close> produces digits and a sign only, so the three lines of a record are
  the three lines read back when the URL has no line feed in it.\<close>

lemma nat_digits_isDigit: "c \<in> set (nat_digits n) \<Longrightarrow> isDigit c"
proof (induction n rule: nat_digits.induct)
  case (1 n)
  show ?case
  proof (cases "n < 10")
    case True
    with "1.prems" have "c = digit_char n"
      by (simp add: nat_digits.simps [of n])
    with True show ?thesis
      by (simp add: isDigit_def digit_char_def)
  next
    case False
    with "1.prems" have "c \<in> set (nat_digits (n div 10)) \<or> c = digit_char (n mod 10)"
      by (auto simp: nat_digits.simps [of n])
    then show ?thesis
    proof
      assume "c \<in> set (nat_digits (n div 10))"
      with False "1.IH" show ?thesis by simp
    next
      assume "c = digit_char (n mod 10)"
      moreover have "n mod 10 < 10" by simp
      ultimately show ?thesis
        by (simp add: isDigit_def digit_char_def)
    qed
  qed
qed

lemma nat_digits_nonempty: "nat_digits n \<noteq> []"
  by (simp add: nat_digits.simps [of n])

lemma number_no_LF: "CHR 0x0A \<notin> set (number i)"
  by (auto simp: number_def isDigit_def dest!: nat_digits_isDigit)

lemma number_last: "number i \<noteq> [] \<and> last (number i) \<noteq> CHR 0x0D"
proof -
  have "nat_digits n \<noteq> [] \<and> last (nat_digits n) \<noteq> CHR 0x0D" for n
  proof -
    have "last (nat_digits n) \<in> set (nat_digits n)"
      by (simp add: nat_digits_nonempty)
    then have "isDigit (last (nat_digits n))" by (rule nat_digits_isDigit)
    then show ?thesis by (auto simp: nat_digits_nonempty isDigit_def)
  qed
  then show ?thesis by (simp add: number_def)
qed

lemma lines_from_line:
  "CHR 0x0A \<notin> set l \<Longrightarrow> lines_from cur (l @ CHR 0x0A # rest) = strip_cr (cur @ l) # lines_from [] rest"
  by (induction l arbitrary: cur) auto

lemma trimmed_Cons_space: "isSpace c \<Longrightarrow> trimmed (c # s) = trimmed s"
  by (simp add: trimmed_def)

lemma trimmed_last:
  assumes "trimmed s = s" and "s \<noteq> []"
  shows "\<not> isSpace (last s)"
proof -
  let ?t = "dropWhile isSpace (rev (dropWhile isSpace s))"
  from assms have "rev ?t = s" by (simp add: trimmed_def)
  have ne: "?t \<noteq> []"
  proof
    assume "?t = []"
    then have "rev ?t = []" by (simp only: rev.simps)
    with \<open>rev ?t = s\<close> assms(2) show False by simp
  qed
  then have "\<not> isSpace (hd ?t)" by (rule hd_dropWhile)
  moreover from \<open>rev ?t = s\<close> ne have "last s = hd ?t"
    by (metis last_rev)
  ultimately show ?thesis by simp
qed

lemma readLines_progress_record:
  assumes "CHR 0x0A \<notin> set url" and "CHR 0x0A \<notin> set st"
  shows "readLines (progress_record url b t st) =
           [strip_cr (''Download URL: '' @ url),
            strip_cr (''Downloaded: '' @ number b @ '' / '' @ number t),
            strip_cr (''Status: '' @ st)]"
proof -
  have 1: "CHR 0x0A \<notin> set (''Download URL: '' @ url)" using assms by simp
  have 2: "CHR 0x0A \<notin> set (''Downloaded: '' @ number b @ '' / '' @ number t)"
    by (simp add: number_no_LF)
  have 3: "CHR 0x0A \<notin> set (''Status: '' @ st)" using assms by simp
  have "progress_record url b t st =
      (''Download URL: '' @ url) @ CHR 0x0A #
        ((''Downloaded: '' @ number b @ '' / '' @ number t) @ CHR 0x0A #
          ((''Status: '' @ st) @ CHR 0x0A # []))"
    by (simp add: progress_record_def)
  then show ?thesis
    unfolding readLines_def
    by (simp only: lines_from_line [OF 1] lines_from_line [OF 2] lines_from_line [OF 3]
        append_Nil lines_from.simps) simp
qed

lemma parse_progress_record:
  assumes "CHR 0x0A \<notin> set url" and "trimmed url = url"
  shows "p_url (parse_progress (progress_record url b t ''paused'')) = url \<and>
         p_status (parse_progress (progress_record url b t ''paused'')) = ''paused''"
proof -
  have l1: "strip_cr (''Download URL: '' @ url) = ''Download URL: '' @ url"
  proof (cases "url = []")
    case True
    then show ?thesis by (simp add: strip_cr_def)
  next
    case False
    with assms trimmed_last [of url] have "last url \<noteq> CHR 0x0D"
      by (auto simp: isSpace_def)
    with False show ?thesis by (simp add: strip_cr_def)
  qed
  have l2: "strip_cr (''Downloaded: '' @ number b @ '' / '' @ number t) =
      ''Downloaded: '' @ number b @ '' / '' @ number t"
    using number_last [of t] by (simp add: strip_cr_def)
  have t1: "trimmed (CHR '' '' # url) = url"
    using assms by (simp add: trimmed_Cons_space isSpace_def)
  have "readLines (progress_record url b t ''paused'') =
      [''Download URL: '' @ url, ''Downloaded: '' @ number b @ '' / '' @ number t, ''Status: paused'']"
    using assms readLines_progress_record [of url "''paused''" b t] l1 l2
    by (simp add: strip_cr_def)
  then show ?thesis
    by (simp add: parse_progress_def parse_line_def startsWith_def section_1_def t1)
      (simp add: trimmed_def isSpace_def)
qed

text \<open>A record with status paused and a URL without line feed and surrounding white
  space reads back its URL and its status, and a recovery pass resubmits it when the
  URL is not empty.\<close>

lemma paused_record_resubmitted:
  assumes "CHR 0x0A \<notin> set url" and "trimmed url = url" and "url \<noteq> []"
  shows "resubmits (parse_progress (progress_record url b t ''paused''))"
  using assms parse_progress_record [of url b t]
  by (simp add: resubmits_def)

section \<open>The claims\<close>

text \<open>
  Claim C1: at every observation point (each progress callback, completion) the counter
  \<open>downloadedBytes\<close> equals the number of bytes of the destination file on disk, the
  handler appending each chunk once and adding its size to the counter.

  The code does not do this. \<^verbatim>\<open>onDownloadProgress\<close> assigns the reply's running total
  \<^verbatim>\<open>bytesReceived\<close> to the counter and calls \<^verbatim>\<open>file->open(QIODevice::WriteOnly)\<close> on the
  QFile that \<^verbatim>\<open>startDownload\<close> opened and never closed, which fails, so nothing is
  written. Below, a download is started in a home directory that holds a progress
  record already, and the first callback delivers the 5 bytes \<open>hello\<close> of 10: the signal
  \<open>downloadProgress 5 10\<close> goes out with the counter at 5 and the file at 0 bytes.
\<close>

theorem C1_counter_differs_from_file_size:
  "let started = startDownload (Downloader example_url, recovered_world);
       c = config_of (onDownloadProgress 5 10 (receive ''hello'' (config_of started)))
   in returned started \<and>
      downloadedBytes (fst c) = 5 \<and>
      map_of (files (snd c)) (destinationPath (fst c) (snd c)) = Some [] \<and>
      qfile_size (QFile (destinationPath (fst c) (snd c))) (snd c) = 0 \<and>
      signals (snd c) = [downloadProgress 5 10]"
  by code_simp

text \<open>
  Claim C2: resuming a paused download issues a range request whose offset is the size
  of the destination file on disk at that moment, and a second resume without new
  data uses the same offset and leaves the file alone.

  The code does not do this. \<^verbatim>\<open>resumeDownload\<close> locks the mutex and calls
  \<^verbatim>\<open>startDownload\<close>, which locks it again: the call blocks and no request is issued.
  Below, the download is started with 4 bytes of the file on disk (the request of that
  start asks for \<open>bytes=0-\<close>, the open having cut the file to length 0), paused, and
  resumed: the resume blocks, the list of requests is the one the start left, and
  the only signal is the one of the pause.
\<close>

theorem C2_resume_blocks_on_the_mutex:
  "let started = startDownload (Downloader example_url, recovered_world);
       stopped = pauseDownload (config_of started);
       resumed = resumeDownload (config_of stopped)
   in qfile_size (QFile (destinationPath (Downloader example_url) recovered_world)) recovered_world = 4 \<and>
      returned started \<and>
      requests (snd (config_of started)) = [\<lparr>rq_url = example_url, rq_range = Some ''bytes=0-''\<rparr>] \<and>
      returned stopped \<and> paused (fst (config_of stopped)) \<and>
      blocked resumed \<and>
      requests (snd (config_of resumed)) = requests (snd (config_of started)) \<and>
      signals (snd (config_of resumed)) = [pauseResumeStatusChanged True]"
  by code_simp

text \<open>
  Claim C3, as stated: a download that fails with a transport error keeps its progress
  record, with status Failed or the in-progress marker, and a recovery pass of a later
  run resubmits the URL of that record.

  This fails for a record with the in-progress marker: a download is started on such
  a record, the reply ends with an error, the record is still there, and
  \<^verbatim>\<open>loadUnfinishedDownloads\<close> on the resulting file system resubmits nothing.
\<close>

theorem C3_counterexample:
  "let started = startDownload (Downloader example_url, stale_world);
       failed = onDownloadFinished (finish OtherError ''Connection refused'' (config_of started))
   in returned started \<and> returned failed \<and>
      signals (snd (config_of failed)) = [downloadFailed ''Connection refused''] \<and>
      map_of (files (snd (config_of failed))) (''/home/u/progress'', ''file.bin.progress'') =
        Some (progress_record example_url 0 10 ''in-progress'') \<and>
      loadUnfinishedDownloads (snd (config_of failed)) = []"
  by code_simp

text \<open>
  Claim C3, amended: when the reply ends with an error, \<^verbatim>\<open>onDownloadFinished\<close> returns
  after emitting \<^verbatim>\<open>downloadFailed\<close> with the reply's error string and changes nothing
  else in the world, so the progress record stays on disk as it was last written (no
  writer produces a Failed status). A recovery pass over that world resubmits a URL
  exactly when the progress directory holds a file whose parsed URL it is, not empty,
  with a parsed status other than \<open>in-progress\<close>; the records written with the
  in-progress marker (by \<^verbatim>\<open>createProgressFile\<close> and \<^verbatim>\<open>updateProgressFile\<close>) are not
  resubmitted, whatever the URL and the byte counts.
\<close>

theorem C3_failed_record_is_kept_and_recovery_skips_in_progress:
  assumes "reply d = Some r" and "rp_error r \<noteq> NoError" and "\<not> mutex d"
  shows "(\<exists>d'. onDownloadFinished (d, w) =
            Returns (d', w\<lparr>signals := signals w @ [downloadFailed (rp_errorString r)]\<rparr>)) \<and>
         (u \<in> set (loadUnfinishedDownloads
                    (w\<lparr>signals := signals w @ [downloadFailed (rp_errorString r)]\<rparr>)) \<longleftrightarrow>
            progressDir w \<in> set (dirs w) \<and>
            (\<exists>progressFileName body.
               map_of (files w) (progressDir w, progressFileName) = Some body \<and>
               resubmits (parse_progress body) \<and> u = p_url (parse_progress body))) \<and>
         \<not> resubmits (parse_progress (initial_record url)) \<and>
         \<not> resubmits (parse_progress (progress_record url b t ''in-progress''))"
proof -
  from assms have "onDownloadFinished (d, w) =
     Returns (d\<lparr>reply := Some (r\<lparr>rp_deleteLater := True\<rparr>)\<rparr>, emit (downloadFailed (rp_errorString r)) w)"
    by (simp add: onDownloadFinished_def QMutexLocker_def)
  then have 1: "\<exists>d'. onDownloadFinished (d, w) =
            Returns (d', w\<lparr>signals := signals w @ [downloadFailed (rp_errorString r)]\<rparr>)"
    by (simp add: emit_def)
  have 2: "loadUnfinishedDownloads (w\<lparr>signals := signals w @ [downloadFailed (rp_errorString r)]\<rparr>) =
      loadUnfinishedDownloads w"
    using loadUnfinishedDownloads_emit [of "downloadFailed (rp_errorString r)" w]
    by (simp add: emit_def)
  from 1 2 show ?thesis
    by (simp only: loadUnfinishedDownloads_iff initial_record_not_resubmitted
        progress_record_not_resubmitted not_False_eq_True simp_thms)
qed

text \<open>
  Claim C3, the amended statement at a concrete input: the download started on the
  record with the in-progress marker, its reply ended with \<open>Connection refused\<close>.
\<close>

theorem C3_witness:
  "reply (fst (finish OtherError ''Connection refused''
       (config_of (startDownload (Downloader example_url, stale_world))))) =
     Some ((connect_slots (get_request \<lparr>rq_url = example_url, rq_range = Some ''bytes=0-''\<rparr>))
             \<lparr>rp_error := OtherError, rp_errorString := ''Connection refused''\<rparr>) \<and>
   (\<exists>d'. onDownloadFinished (finish OtherError ''Connection refused''
       (config_of (startDownload (Downloader example_url, stale_world)))) =
     Returns (d', (snd (config_of (startDownload (Downloader example_url, stale_world))))
                    \<lparr>signals := [downloadFailed ''Connection refused'']\<rparr>)) \<and>
   example_url \<notin> set (loadUnfinishedDownloads
     ((snd (config_of (startDownload (Downloader example_url, stale_world))))
        \<lparr>signals := [downloadFailed ''Connection refused'']\<rparr>)) \<and>
   \<not> resubmits (parse_progress (progress_record example_url 0 10 ''in-progress''))"
proof -
  let ?c = "finish OtherError ''Connection refused''
       (config_of (startDownload (Downloader example_url, stale_world)))"
  let ?r = "(connect_slots (get_request \<lparr>rq_url = example_url, rq_range = Some ''bytes=0-''\<rparr>))
             \<lparr>rp_error := OtherError, rp_errorString := ''Connection refused''\<rparr>"
  have h1: "reply (fst ?c) = Some ?r" by code_simp
  have h2: "rp_error ?r \<noteq> NoError" by code_simp
  have h3: "\<not> mutex (fst ?c)" by code_simp
  have e1: "rp_errorString ?r = ''Connection refused''" by code_simp
  have e2: "signals (snd ?c) = []" by code_simp
  have e3: "snd ?c = snd (config_of (startDownload (Downloader example_url, stale_world)))"
    by (simp add: finish_def)
  have e4: "example_url \<notin> set (loadUnfinishedDownloads
     ((snd (config_of (startDownload (Downloader example_url, stale_world))))
        \<lparr>signals := [downloadFailed ''Connection refused'']\<rparr>))"
    by code_simp
  from C3_failed_record_is_kept_and_recovery_skips_in_progress
         [OF h1 h2 h3, of "snd ?c" example_url example_url 0 10]
  have "(\<exists>d'. onDownloadFinished (fst ?c, snd ?c) =
            Returns (d', (snd ?c)\<lparr>signals := signals (snd ?c) @ [downloadFailed (rp_errorString ?r)]\<rparr>)) \<and>
        \<not> resubmits (parse_progress (progress_record example_url 0 10 ''in-progress''))"
    by blast
  with h1 e4 show ?thesis
    by (simp only: e1 e2 e3 [symmetric] append_Nil prod.collapse simp_thms)
qed

text \<open>
  Claim C4: a download that completes (reply fully read, no transport error) has its
  progress record deleted, so a later enumeration of the records does not list it.

  The code does not do this for a download whose record was on disk when it started.
  \<^verbatim>\<open>startDownload\<close> then skips \<^verbatim>\<open>createProgressFile\<close>, the only place that assigns the
  \<^verbatim>\<open>progressFile\<close> pointer, and \<^verbatim>\<open>onDownloadFinished\<close> removes the record only under
  \<^verbatim>\<open>if (progressFile && ...)\<close>. Below, such a download finishes without error:
  \<^verbatim>\<open>downloadFinished\<close> is emitted, the record is still listed, unchanged, and
  \<^verbatim>\<open>loadUnfinishedDownloads\<close> resubmits its URL.
\<close>

theorem C4_record_survives_completion:
  "let started = startDownload (Downloader example_url, recovered_world);
       finished = onDownloadFinished (finish NoError [] (receive ''hello'' (config_of started)))
   in returned started \<and> progressFile (fst (config_of started)) = None \<and>
      returned finished \<and>
      signals (snd (config_of finished)) = [downloadFinished ''/home/u/qt_downloads/file.bin''] \<and>
      entryList (progressDir (snd (config_of finished))) (snd (config_of finished)) =
        [''file.bin.progress''] \<and>
      map_of (files (snd (config_of finished))) (''/home/u/progress'', ''file.bin.progress'') =
        Some (progress_record example_url 4 10 ''paused'') \<and>
      loadUnfinishedDownloads (snd (config_of finished)) = [example_url]"
  by code_simp

text \<open>
  Claim C5, as stated: \<^verbatim>\<open>startDownload\<close> takes the size \<open>n\<close> of the destination file as
  the resume offset and sends the header \<^verbatim>\<open>Range: bytes=n-\<close> exactly when \<open>n > 0\<close>, and
  a GET without that header when \<open>n = 0\<close>.

  This fails when there is no destination file yet: \<open>n\<close> is 0 and the request carries
  \<^verbatim>\<open>Range: bytes=0-\<close>.
\<close>

theorem C5_counterexample:
  "let started = startDownload (Downloader example_url, stale_world)
   in qfile_size (QFile (destinationPath (Downloader example_url) stale_world)) stale_world = 0 \<and>
      returned started \<and>
      downloadedBytes (fst (config_of started)) = 0 \<and>
      requests (snd (config_of started)) = [\<lparr>rq_url = example_url, rq_range = Some ''bytes=0-''\<rparr>]"
  by code_simp

text \<open>
  Claim C5, amended: a call of \<^verbatim>\<open>startDownload\<close> with the mutex free, a destination
  file that can be opened (its directory exists, its name is not empty) and a
  progress record already on disk returns after issuing exactly one GET of the
  download URL, and that request always carries the header \<^verbatim>\<open>Range: bytes=n-\<close>, where
  \<open>n\<close> is the size of the destination file as the call leaves it, stored in
  \<open>downloadedBytes\<close>; the header is sent for \<open>n = 0\<close> as well. The call emits no signal.
\<close>

theorem C5_start_always_sends_a_range_header:
  assumes "\<not> mutex d" and "homePath w @ ''/qt_downloads'' \<in> set (dirs w)"
    and "urlFileName w (downloadUrl d) \<noteq> []" and "file_exists (progressFilePath d w) w"
  shows "\<exists>d' w'. startDownload (d, w) = Returns (d', w') \<and>
           requests w' = requests w @
             [\<lparr>rq_url = downloadUrl d,
               rq_range = Some (''bytes='' @ number (downloadedBytes d') @ ''-'')\<rparr>] \<and>
           downloadedBytes d' = qfile_size (QFile (destinationPath d w)) w' \<and>
           signals w' = signals w"
  using assms
  by (simp add: startDownload_def QMutexLocker_def and_then_def qfile_open_WriteOnly_def QFile_def
      destinationPath_def progressFilePath_def progressDir_def ensure_dir_def mkpath_def
      file_exists_def update_conv' qfile_size_def Let_def del: not_None_eq)

text \<open>
  Claim C5, the amended statement at a concrete input: a new Downloader in the home
  directory of an earlier run.
\<close>

theorem C5_witness:
  "\<not> mutex (Downloader example_url) \<and>
   homePath recovered_world @ ''/qt_downloads'' \<in> set (dirs recovered_world) \<and>
   urlFileName recovered_world (downloadUrl (Downloader example_url)) \<noteq> [] \<and>
   file_exists (progressFilePath (Downloader example_url) recovered_world) recovered_world \<and>
   (\<exists>d' w'. startDownload (Downloader example_url, recovered_world) = Returns (d', w') \<and>
      requests w' = requests recovered_world @
        [\<lparr>rq_url = downloadUrl (Downloader example_url),
          rq_range = Some (''bytes='' @ number (downloadedBytes d') @ ''-'')\<rparr>] \<and>
      downloadedBytes d' =
        qfile_size (QFile (destinationPath (Downloader example_url) recovered_world)) w' \<and>
      signals w' = signals recovered_world)"
proof -
  have h1: "\<not> mutex (Downloader example_url)" by code_simp
  have h2: "homePath recovered_world @ ''/qt_downloads'' \<in> set (dirs recovered_world)" by code_simp
  have h3: "urlFileName recovered_world (downloadUrl (Downloader example_url)) \<noteq> []" by code_simp
  have h4: "file_exists (progressFilePath (Downloader example_url) recovered_world) recovered_world"
    by code_simp
  from h1 h2 h3 h4 C5_start_always_sends_a_range_header [OF h1 h2 h3 h4] show ?thesis
    by (intro conjI)
qed

text \<open>
  Claim C6: \<open>downloadedBytes\<close> is never negative and never decreases across the
  operations on a Downloader (start, progress update, pause, resume).

  For every sequence of calls on a new Downloader, in any world, whose progress
  callbacks report byte counts that are not negative, the counters after the calls
  form a non-decreasing list that starts at the constructor's 0, and none is negative.
  The counter is assigned in two places: \<^verbatim>\<open>startDownload\<close> stores the size of the file
  it has just opened, which is 0, and \<^verbatim>\<open>onDownloadProgress\<close> stores \<^verbatim>\<open>bytesReceived\<close> and
  then blocks in \<^verbatim>\<open>updateProgressFile\<close> with the mutex held, after which no call on this
  Downloader gets past its \<^verbatim>\<open>QMutexLocker\<close>.
\<close>

theorem C6_counter_never_decreases:
  assumes "list_all received_nonneg xs"
  shows "sorted (map (\<lambda>c. downloadedBytes (fst c))
                  ((Downloader url, w) # trace xs (Downloader url, w))) \<and>
         list_all (\<lambda>c. 0 \<le> downloadedBytes (fst c))
                  ((Downloader url, w) # trace xs (Downloader url, w))"
  using trace_counters [of "(Downloader url, w)" xs] assms
  by (simp add: Downloader_def)

text \<open>
  Claim C6 at a concrete sequence: start, a progress callback with 5 bytes of 10,
  pause, resume. The counters after the four calls are 0, 5, 5, 5.
\<close>

theorem C6_witness:
  "list_all received_nonneg [Start, Progress 5 10 ''hello'', Pause, Resume] \<and>
   sorted (map (\<lambda>c. downloadedBytes (fst c))
     ((Downloader example_url, recovered_world) #
        trace [Start, Progress 5 10 ''hello'', Pause, Resume] (Downloader example_url, recovered_world))) \<and>
   list_all (\<lambda>c. 0 \<le> downloadedBytes (fst c))
     ((Downloader example_url, recovered_world) #
        trace [Start, Progress 5 10 ''hello'', Pause, Resume] (Downloader example_url, recovered_world)) \<and>
   map (\<lambda>c. downloadedBytes (fst c))
     (trace [Start, Progress 5 10 ''hello'', Pause, Resume] (Downloader example_url, recovered_world)) =
     [0, 5, 5, 5]"
proof -
  have h: "list_all received_nonneg [Start, Progress 5 10 ''hello'', Pause, Resume]" by simp
  have v: "map (\<lambda>c. downloadedBytes (fst c))
     (trace [Start, Progress 5 10 ''hello'', Pause, Resume] (Downloader example_url, recovered_world)) =
     [0, 5, 5, 5]"
    by code_simp
  from h v C6_counter_never_decreases [OF h, of example_url recovered_world] show ?thesis
    by (intro conjI) blast+
qed

text \<open>
  Claim C7: a progress update with a total of 0 never leads to a division by zero in
  the percentage computation; the total 0 is handled apart and is never a divisor.

  The only division of the program is in the lambda of \<^verbatim>\<open>main.cpp\<close>. Whatever the two
  arguments are, its result is not the error \<open>DivisionByZero\<close>, and for a total of 0
  it sets the bar to 0 without dividing.
\<close>

theorem C7_no_division_by_zero:
  "progress_lambda bytesReceived bytesTotal \<noteq> Inl DivisionByZero \<and>
   progress_lambda bytesReceived 0 = Inr 0"
  by (simp add: progress_lambda_def qint64_mul_def qint64_div_def split: sum.splits)

text \<open>
  Claim C8: every progress record the program writes reads back through the line
  format: parsing recovers the URL, the byte count and the status that were written.

  The code does not do this for the byte count. \<^verbatim>\<open>updateProgressFile\<close>,
  \<^verbatim>\<open>pauseDownload\<close> and \<^verbatim>\<open>onDownloadFinished\<close> write \<^verbatim>\<open>Downloaded: <n> / <total>\<close>, and
  \<^verbatim>\<open>loadUnfinishedDownloads\<close> converts all that follows the colon with
  \<^verbatim>\<open>toLongLong()\<close>, which fails on \<open>400 / 1000\<close> and gives 0. Below, the record of a
  download paused at 400 of 1000 bytes is parsed: URL and status come back, the byte
  count is 0.
\<close>

theorem C8_downloaded_count_is_not_recovered:
  "parse_progress (progress_record example_url 400 1000 ''paused'') =
     \<lparr>p_url = example_url, p_downloadedBytes = 0, p_status = ''paused''\<rparr> \<and>
   trimmed (section_1 ''Downloaded: 400 / 1000'') = ''400 / 1000'' \<and>
   toLongLong ''400 / 1000'' = 0 \<and>
   toLongLong ''400'' = 400"
  by code_simp

text \<open>
  Claim C9, as stated: \<^verbatim>\<open>resumeDownload\<close> on a worker that was never started behaves as a
  first \<^verbatim>\<open>startDownload\<close> from offset 0: it opens the destination file and issues the
  request.

  This fails on a new Downloader: \<^verbatim>\<open>resumeDownload\<close> returns with no file opened and no
  request issued, where \<^verbatim>\<open>startDownload\<close> opens the file and issues the GET.
\<close>

theorem C9_counterexample:
  "let fresh = (Downloader example_url, recovered_world)
   in returned (resumeDownload fresh) \<and>
      file_obj (fst (config_of (resumeDownload fresh))) = None \<and>
      requests (snd (config_of (resumeDownload fresh))) = [] \<and>
      returned (startDownload fresh) \<and>
      file_obj (fst (config_of (startDownload fresh))) =
        Some \<lparr>f_path = (''/home/u/qt_downloads'', ''file.bin''), isOpen = True\<rparr> \<and>
      requests (snd (config_of (startDownload fresh))) =
        [\<lparr>rq_url = example_url, rq_range = Some ''bytes=0-''\<rparr>]"
  by code_simp

text \<open>
  Claim C9, amended: \<^verbatim>\<open>resumeDownload\<close> on a worker that is not paused, as is every
  worker that was never started, does nothing: it returns and leaves the Downloader
  and the world as they were (no file opened, no request, no signal).
\<close>

theorem C9_resume_of_a_worker_not_paused_does_nothing:
  assumes "\<not> paused d" and "\<not> mutex d"
  shows "resumeDownload (d, w) = Returns (d, w)"
  using assms by (simp add: resumeDownload_def QMutexLocker_def)

text \<open>
  Claim C9, the amended statement at a concrete input: a new Downloader.
\<close>

theorem C9_witness:
  "\<not> paused (Downloader example_url) \<and> \<not> mutex (Downloader example_url) \<and>
   resumeDownload (Downloader example_url, fresh_world) = Returns (Downloader example_url, fresh_world)"
proof -
  have h1: "\<not> paused (Downloader example_url)" by (simp add: Downloader_def)
  have h2: "\<not> mutex (Downloader example_url)" by (simp add: Downloader_def)
  from h1 h2 C9_resume_of_a_worker_not_paused_does_nothing [OF h1 h2, of fresh_world]
  show ?thesis by (intro conjI)
qed

text \<open>
  Claim C10: when the reported total is 0 or less, \<^verbatim>\<open>onDownloadProgress\<close> emits
  \<^verbatim>\<open>downloadProgress\<close> with the total 1 in place of it, never 0.

  For a Downloader with a destination file and a reply (as every connected slot has)
  and the mutex free, the call adds exactly one signal to those emitted before,
  \<open>downloadProgress bytesReceived 1\<close>. The signal goes out before the call reaches
  \<^verbatim>\<open>updateProgressFile\<close>; \<open>config_of\<close> is the state in which the call stops.
\<close>

theorem C10_unknown_total_is_reported_as_1:
  assumes "bytesTotal \<le> 0" and "file_obj d = Some f" and "reply d = Some r" and "\<not> mutex d"
  shows "signals (snd (config_of (onDownloadProgress bytesReceived bytesTotal (d, w)))) =
           signals w @ [downloadProgress bytesReceived 1]"
  using assms
  by (simp add: onDownloadProgress_def QMutexLocker_def and_then_def updateProgressFile_locked
       write_readAll_def qfile_open_WriteOnly_def qfile_write_def emit_def config_of_def Let_def
       split: option.splits)

text \<open>
  Claim C10 at a concrete input: the first callback of a started download, with the
  total \<open>-1\<close> that Qt reports for an unknown length.
\<close>

theorem C10_witness:
  "(- 1 :: int) \<le> 0 \<and>
   file_obj (fst (config_of (startDownload (Downloader example_url, recovered_world)))) =
     Some \<lparr>f_path = (''/home/u/qt_downloads'', ''file.bin''), isOpen = True\<rparr> \<and>
   reply (fst (config_of (startDownload (Downloader example_url, recovered_world)))) =
     Some (connect_slots (get_request \<lparr>rq_url = example_url, rq_range = Some ''bytes=0-''\<rparr>)) \<and>
   \<not> mutex (fst (config_of (startDownload (Downloader example_url, recovered_world)))) \<and>
   signals (snd (config_of (onDownloadProgress 5 (- 1)
       (config_of (startDownload (Downloader example_url, recovered_world)))))) =
     signals (snd (config_of (startDownload (Downloader example_url, recovered_world)))) @
       [downloadProgress 5 1]"
proof -
  let ?c = "config_of (startDownload (Downloader example_url, recovered_world))"
  have h1: "(- 1 :: int) \<le> 0" by simp
  have h2: "file_obj (fst ?c) =
     Some \<lparr>f_path = (''/home/u/qt_downloads'', ''file.bin''), isOpen = True\<rparr>" by code_simp
  have h3: "reply (fst ?c) =
     Some (connect_slots (get_request \<lparr>rq_url = example_url, rq_range = Some ''bytes=0-''\<rparr>))"
    by code_simp
  have h4: "\<not> mutex (fst ?c)" by code_simp
  from C10_unknown_total_is_reported_as_1 [OF h1 h2 h3 h4, of 5 "snd ?c"] h1 h2 h3 h4
  show ?thesis by simp
qed

end
